theory Spec2Isabelle
  imports Main "HOL-Library.Word"
begin

section \<open>Extension discovery and forwarding of the dashboard (pkg/endpoints/utils.go)\<close>

subsection \<open>Constants\<close>

text \<open>Services with this label are extensions; the selector is passed to the cluster query.\<close>

definition extensionLabel :: string where
  "extensionLabel = ''tekton-dashboard-extension=true''"

text \<open>The annotation with this key gives the path of the extension.\<close>

definition urlKey :: string where
  "urlKey = ''tekton-dashboard-endpoints''"

text \<open>The constant \<open>restful.MIME_JSON\<close> of the routing library.\<close>

definition MIME_JSON :: string where
  "MIME_JSON = ''application/json''"

subsection \<open>Cluster objects\<close>

text \<open>
  The fields of \<open>corev1.Service\<close> that the code reads. \<open>Port\<close> of a service port is an
  \<open>int32\<close>. \<open>Annotations\<close> is a Go map: it is kept as the list of its entries in the
  order the \<open>range\<close> loop visits them, which the runtime chooses; the keys of a map are
  distinct.
\<close>

record ServicePort =
  port_Port :: "32 word"

record ServiceSpec =
  spec_Ports :: "ServicePort list"

record ObjectMeta =
  meta_Name :: string
  meta_Annotations :: "(string \<times> string) list"

record Service =
  svc_ObjectMeta :: ObjectMeta
  svc_Spec :: ServiceSpec

text \<open>
  \<open>Resource\<close> holds the clients. Of \<open>K8sClient\<close> the code uses
  \<open>CoreV1().Services(namespace).List(ListOptions{LabelSelector: ...})\<close>: a function of the
  namespace and the label selector that returns the items or an error (its message).
  \<open>PipelineClient\<close> is used by the resource handlers only.
\<close>

record Resource =
  K8sClient :: "string \<Rightarrow> string \<Rightarrow> string + Service list"

subsection \<open>Extensions, routes and the container\<close>

record Extension =
  Name :: string
  URL :: string
  Port :: string

text \<open>
  A route handler is a method value: a handler of the resource (named here by its method)
  or \<open>ext.HandleExtension\<close> bound to an extension.
\<close>

datatype handler = ResourceHandler string | ExtensionHandler Extension

text \<open>
  A route of a web service: the method, the path and the handler.
\<close>

record Route =
  Method :: string
  Path :: string
  Function :: handler

record WebService =
  rootPath :: string
  consumes :: "string list"
  produces :: "string list"
  routes :: "Route list"

datatype level = INFO | ERROR | DEBUG

text \<open>What the registration functions change: the container and the log.\<close>

record state =
  container :: "WebService list"
  log :: "(level \<times> string) list"

text \<open>
  How the process stops short: on a runtime panic of the code (an index out of range, a
  nil dereference), or because the routing library calls \<open>os.Exit(1)\<close>.
\<close>

datatype abort = IndexOutOfRange | NilPointerDereference | Exit

definition logging :: "level \<Rightarrow> string \<Rightarrow> state \<Rightarrow> state" where
  "logging l msg st = st\<lparr>log := log st @ [(l, msg)]\<rparr>"

subsection \<open>The routing library\<close>

text \<open>
  Of \<open>github.com/emicklei/go-restful\<close> the code uses \<open>ws.Path\<close>, \<open>Consumes\<close> and
  \<open>Produces\<close>, which set the root path and the MIME types of a web service (the root
  paths are constants of the source), the route builders (\<open>ws.GET(p).To(f)\<close>,
  \<open>ws.POST(p).To(f)\<close>, ...), \<open>ws.Route\<close> and \<open>container.Add\<close>.
  \<^item> \<open>ws.Route\<close> builds the route and adds it at the end of the ordered list of routes
    of the web service. Building compiles the path given to the builder and calls
    \<open>os.Exit(1)\<close> when it does not compile; whether the library compiles a path is the
    parameter \<open>newPathExpression\<close>.
  \<^item> The path of the route that is built is \<open>concatPath\<close> of the root path of the web
    service and the path given to the builder:
    \<open>strings.TrimRight(path1, "/") + "/" + strings.TrimLeft(path2, "/")\<close>.
  \<^item> \<open>container.Add\<close> calls \<open>os.Exit(1)\<close> when the container already holds a web
    service with the same root path, and adds the web service at the end otherwise.
\<close>

definition TrimLeft :: "string \<Rightarrow> string" where
  "TrimLeft s = dropWhile (\<lambda>c. c = CHR ''/'') s"

definition TrimRight :: "string \<Rightarrow> string" where
  "TrimRight s = rev (dropWhile (\<lambda>c. c = CHR ''/'') (rev s))"

definition concatPath :: "string \<Rightarrow> string \<Rightarrow> string" where
  "concatPath path1 path2 = TrimRight path1 @ ''/'' @ TrimLeft path2"

definition new_WebService :: WebService where
  "new_WebService = \<lparr>rootPath = [], consumes = [], produces = [], routes = []\<rparr>"

definition ws_Route ::
  "(string \<Rightarrow> bool) \<Rightarrow> WebService \<Rightarrow> string \<Rightarrow> string \<Rightarrow> handler \<Rightarrow> abort + WebService"
where
  "ws_Route newPathExpression ws method path f =
     (if newPathExpression path
      then Inr (ws\<lparr>routes := routes ws @
                  [\<lparr>Method = method, Path = concatPath (rootPath ws) path, Function = f\<rparr>]\<rparr>)
      else Inl Exit)"

definition container_Add :: "WebService \<Rightarrow> state \<Rightarrow> abort + state" where
  "container_Add ws st =
     (if rootPath ws \<in> set (map rootPath (container st)) then Inl Exit
      else Inr (st\<lparr>container := container st @ [ws]\<rparr>))"

subsection \<open>strconv.Itoa\<close>

text \<open>The decimal digits of a natural number, most significant first.\<close>

definition digit :: "nat \<Rightarrow> char" where
  "digit d = ''0123456789'' ! d"

function digits :: "nat \<Rightarrow> string" where
  "digits n = (if n < 10 then [digit n] else digits (n div 10) @ [digit (n mod 10)])"
  by pat_completeness auto
termination
  by (relation "measure id") auto

declare digits.simps [simp del]

definition Itoa :: "int \<Rightarrow> string" where
  "Itoa i = (if i < 0 then CHR ''-'' # digits (nat (- i)) else digits (nat i))"

subsection \<open>getPort\<close>

text \<open>
  \<open>strconv.Itoa(int(svc.Spec.Ports[0].Port))\<close>: indexing an empty slice panics.
\<close>

definition getPort :: "Service \<Rightarrow> abort + string" where
  "getPort svc =
     (case spec_Ports (svc_Spec svc) of
        [] \<Rightarrow> Inl IndexOutOfRange
      | p # _ \<Rightarrow> Inr (Itoa (sint (port_Port p))))"

subsection \<open>RegisterEndpoints\<close>

text \<open>The calls \<open>wsv1.Route(wsv1.GET(...).To(...))\<close>, ... of the source, in its order.\<close>

definition v1_routes :: "(string \<times> string \<times> handler) list" where
  "v1_routes =
     [(''GET'', ''/{namespace}/pipeline'', ResourceHandler ''getAllPipelines''),
      (''GET'', ''/{namespace}/pipeline/{name}'', ResourceHandler ''getPipeline''),
      (''GET'', ''/{namespace}/pipelinerun'', ResourceHandler ''getAllPipelineRuns''),
      (''GET'', ''/{namespace}/pipelinerun/{name}'', ResourceHandler ''getPipelineRun''),
      (''PUT'', ''/{namespace}/pipelinerun/{name}'', ResourceHandler ''updatePipelineRun''),
      (''GET'', ''/{namespace}/pipelineresource'', ResourceHandler ''getAllPipelineResources''),
      (''GET'', ''/{namespace}/pipelineresource/{name}'', ResourceHandler ''getPipelineResource''),
      (''GET'', ''/{namespace}/task'', ResourceHandler ''getAllTasks''),
      (''GET'', ''/{namespace}/task/{name}'', ResourceHandler ''getTask''),
      (''GET'', ''/{namespace}/taskrun'', ResourceHandler ''getAllTaskRuns''),
      (''GET'', ''/{namespace}/taskrun/{name}'', ResourceHandler ''getTaskRun''),
      (''GET'', ''/{namespace}/log/{name}'', ResourceHandler ''getPodLog''),
      (''GET'', ''/{namespace}/taskrunlog/{name}'', ResourceHandler ''getTaskRunLog''),
      (''GET'', ''/{namespace}/pipelinerunlog/{name}'', ResourceHandler ''getPipelineRunLog''),
      (''GET'', ''/{namespace}/credentials/'', ResourceHandler ''getAllCredentials''),
      (''GET'', ''/{namespace}/credentials/{id}'', ResourceHandler ''getCredential''),
      (''POST'', ''/{namespace}/credentials/'', ResourceHandler ''createCredential''),
      (''PUT'', ''/{namespace}/credentials/{id}'', ResourceHandler ''updateCredential''),
      (''DELETE'', ''/{namespace}/credentials/{id}'', ResourceHandler ''deleteCredential'')]"

fun ws_Routes ::
  "(string \<Rightarrow> bool) \<Rightarrow> WebService \<Rightarrow> (string \<times> string \<times> handler) list \<Rightarrow> abort + WebService"
where
  "ws_Routes newPathExpression ws [] = Inr ws"
| "ws_Routes newPathExpression ws ((method, path, f) # rest) =
     (case ws_Route newPathExpression ws method path f of
        Inl a \<Rightarrow> Inl a
      | Inr ws \<Rightarrow> ws_Routes newPathExpression ws rest)"

definition RegisterEndpoints :: "(string \<Rightarrow> bool) \<Rightarrow> Resource \<Rightarrow> state \<Rightarrow> abort + state" where
  "RegisterEndpoints newPathExpression r st =
     (let wsv1 = new_WebService
            \<lparr>rootPath := ''/v1/namespaces'', consumes := [MIME_JSON], produces := [MIME_JSON]\<rparr>;
          st = logging INFO ''Adding v1, and API for pipelines'' st
      in case ws_Routes newPathExpression wsv1 v1_routes of
           Inl a \<Rightarrow> Inl a
         | Inr wsv1 \<Rightarrow> container_Add wsv1 st)"

subsection \<open>RegisterExtension\<close>

text \<open>
  The inner loop \<open>for key, url := range svc.ObjectMeta.Annotations\<close> over the entries
  that are left, on the web service under construction and the state.
\<close>

fun annotations_loop ::
  "(string \<Rightarrow> bool) \<Rightarrow> Service \<Rightarrow> (string \<times> string) list \<Rightarrow> WebService \<times> state \<Rightarrow>
   abort + WebService \<times> state"
where
  "annotations_loop newPathExpression svc [] (ws, st) = Inr (ws, st)"
| "annotations_loop newPathExpression svc ((key, url) # rest) (ws, st) =
     (if key = urlKey then
        (let st = logging DEBUG (''extension URL: '' @ url) st in
         case getPort svc of
           Inl p \<Rightarrow> Inl p
         | Inr port \<Rightarrow>
             (let ext = \<lparr>Name = meta_Name (svc_ObjectMeta svc), URL = url, Port = port\<rparr>
              in case ws_Route newPathExpression ws ''POST'' url (ExtensionHandler ext) of
                   Inl a \<Rightarrow> Inl a
                 | Inr ws \<Rightarrow> annotations_loop newPathExpression svc rest (ws, st)))
      else annotations_loop newPathExpression svc rest (ws, st))"

text \<open>The outer loop \<open>for _, svc := range svcs.Items\<close>.\<close>

fun services_loop ::
  "(string \<Rightarrow> bool) \<Rightarrow> Service list \<Rightarrow> WebService \<times> state \<Rightarrow> abort + WebService \<times> state"
where
  "services_loop newPathExpression [] (ws, st) = Inr (ws, st)"
| "services_loop newPathExpression (svc # svcs) (ws, st) =
     (case annotations_loop newPathExpression svc (meta_Annotations (svc_ObjectMeta svc)) (ws, st) of
        Inl p \<Rightarrow> Inl p
      | Inr (ws, st) \<Rightarrow> services_loop newPathExpression svcs (ws, st))"

definition RegisterExtension ::
  "(string \<Rightarrow> bool) \<Rightarrow> Resource \<Rightarrow> state \<Rightarrow> string \<Rightarrow> abort + state"
where
  "RegisterExtension newPathExpression r st namespace =
     (let st = logging INFO ''Adding API for extensions'' st in
      case K8sClient r namespace extensionLabel of
        Inl err \<Rightarrow> Inr (logging ERROR (''no extension found: '' @ err) st)
      | Inr svcs \<Rightarrow>
          (let ws = new_WebService
                 \<lparr>rootPath := ''/'', consumes := [MIME_JSON], produces := [MIME_JSON]\<rparr>
           in case services_loop newPathExpression svcs (ws, st) of
                Inl p \<Rightarrow> Inl p
              | Inr (ws, st) \<Rightarrow> container_Add ws st))"

subsection \<open>HandleExtension\<close>

text \<open>
  \<open>url.Parse\<close> and the reverse proxy of \<open>net/http/httputil\<close> are parameters:
  \<open>url_Parse\<close> returns the parsed URL or an error, \<open>ServeHTTP\<close> is what the proxy for a
  target does with the response writer and the request. On an error \<open>url.Parse\<close>
  returns a nil URL, and \<open>NewSingleHostReverseProxy\<close> reads the fields of its target.
\<close>

record 'q restful_Request =
  Request :: 'q

definition NewSingleHostReverseProxy :: "'u option \<Rightarrow> abort + 'u" where
  "NewSingleHostReverseProxy target =
     (case target of None \<Rightarrow> Inl NilPointerDereference | Some u \<Rightarrow> Inr u)"

definition HandleExtension ::
  "(string \<Rightarrow> 'e + 'u) \<Rightarrow> ('u \<Rightarrow> 'w \<Rightarrow> 'q \<Rightarrow> 'w) \<Rightarrow> Extension \<Rightarrow>
   'q restful_Request \<Rightarrow> 'w \<Rightarrow> abort + 'w"
where
  "HandleExtension url_Parse ServeHTTP ext request response =
     (let target = (case url_Parse (''http://'' @ Name ext @ '':'' @ Port ext @ ''/'') of
                      Inl _ \<Rightarrow> None
                    | Inr u \<Rightarrow> Some u)
      in case NewSingleHostReverseProxy target of
           Inl p \<Rightarrow> Inl p
         | Inr proxy \<Rightarrow> Inr (ServeHTTP proxy response (Request request)))"

subsection \<open>What a pass registers, in closed form\<close>

text \<open>
  The values of the endpoint annotation of a service, in the order the inner loop meets
  them (at most one when the keys are distinct), and the services on which
  \<open>getPort\<close> is called with no port to read.
\<close>

definition endpoints :: "Service \<Rightarrow> string list" where
  "endpoints svc =
     map snd (filter (\<lambda>kv. fst kv = urlKey) (meta_Annotations (svc_ObjectMeta svc)))"

definition malformed :: "Service \<Rightarrow> bool" where
  "malformed svc \<longleftrightarrow>
     urlKey \<in> set (map fst (meta_Annotations (svc_ObjectMeta svc))) \<and>
     spec_Ports (svc_Spec svc) = []"

text \<open>
  A service is accepted when its turn in the loop neither panics nor exits: it is not
  malformed and the library compiles each of its endpoint paths.
\<close>

definition accepted :: "(string \<Rightarrow> bool) \<Rightarrow> Service \<Rightarrow> bool" where
  "accepted newPathExpression svc \<longleftrightarrow>
     \<not> malformed svc \<and> list_all newPathExpression (endpoints svc)"

text \<open>How the turn of a service stops the pass, if it does, and the first such stop.\<close>

definition stops :: "(string \<Rightarrow> bool) \<Rightarrow> Service \<Rightarrow> abort option" where
  "stops newPathExpression svc =
     (if malformed svc then Some IndexOutOfRange
      else if list_all newPathExpression (endpoints svc) then None
      else Some Exit)"

fun first_stop :: "(string \<Rightarrow> bool) \<Rightarrow> Service list \<Rightarrow> abort option" where
  "first_stop newPathExpression [] = None"
| "first_stop newPathExpression (svc # svcs) =
     (case stops newPathExpression svc of
        Some a \<Rightarrow> Some a
      | None \<Rightarrow> first_stop newPathExpression svcs)"

definition ext_route :: "string \<Rightarrow> Service \<Rightarrow> string \<Rightarrow> string \<Rightarrow> Route" where
  "ext_route root svc url port =
     \<lparr>Method = ''POST'', Path = concatPath root url,
      Function = ExtensionHandler
        \<lparr>Name = meta_Name (svc_ObjectMeta svc), URL = url, Port = port\<rparr>\<rparr>"

definition service_routes :: "string \<Rightarrow> Service \<Rightarrow> Route list" where
  "service_routes root svc =
     (case spec_Ports (svc_Spec svc) of
        [] \<Rightarrow> []
      | p # _ \<Rightarrow> map (\<lambda>url. ext_route root svc url (Itoa (sint (port_Port p)))) (endpoints svc))"

definition service_log :: "Service \<Rightarrow> (level \<times> string) list" where
  "service_log svc = map (\<lambda>url. (DEBUG, ''extension URL: '' @ url)) (endpoints svc)"

definition extension_routes :: "string \<Rightarrow> Service list \<Rightarrow> Route list" where
  "extension_routes root svcs = concat (map (service_routes root) svcs)"

definition extension_log :: "Service list \<Rightarrow> (level \<times> string) list" where
  "extension_log svcs = concat (map service_log svcs)"

text \<open>The web service that a completed pass over \<open>svcs\<close> adds to the container.\<close>

definition extension_ws :: "Service list \<Rightarrow> WebService" where
  "extension_ws svcs =
     \<lparr>rootPath = ''/'', consumes = [MIME_JSON], produces = [MIME_JSON],
      routes = extension_routes ''/'' svcs\<rparr>"

text \<open>All routes with a given path in the container that a registration returns.\<close>

definition registered_at :: "string \<Rightarrow> abort + state \<Rightarrow> Route list" where
  "registered_at p res =
     (case res of
        Inl _ \<Rightarrow> []
      | Inr st \<Rightarrow> concat (map (\<lambda>ws. filter (\<lambda>rt. Path rt = p) (routes ws)) (container st)))"

subsection \<open>Reading a port back\<close>

text \<open>
  A string is a positive integer when it is a non-empty sequence of decimal digits
  whose value is not zero.
\<close>

definition digit_value :: "char \<Rightarrow> nat option" where
  "digit_value c =
     (if 48 \<le> (of_char c :: nat) \<and> (of_char c :: nat) \<le> 57
      then Some (of_char c - 48) else None)"

fun decimal_acc :: "nat \<Rightarrow> string \<Rightarrow> nat option" where
  "decimal_acc a [] = Some a"
| "decimal_acc a (c # cs) =
     (case digit_value c of None \<Rightarrow> None | Some d \<Rightarrow> decimal_acc (10 * a + d) cs)"

definition positive_integer :: "string \<Rightarrow> bool" where
  "positive_integer s \<longleftrightarrow>
     s \<noteq> [] \<and> (case decimal_acc 0 s of None \<Rightarrow> False | Some n \<Rightarrow> 0 < n)"

subsection \<open>Example clusters\<close>

text \<open>
  \<open>foo\<close> has the annotation \<open>/foo-ext\<close> and port 8080; \<open>bar\<close> has no endpoint
  annotation; \<open>baz\<close> declares the path of \<open>foo\<close> again; \<open>qux\<close> has the annotation and
  no port; \<open>zero\<close> declares port 0; the annotation of \<open>rel\<close> does not start with a
  slash; the annotation of \<open>bad\<close> holds an expression that does not compile.
\<close>

definition mk_Service :: "string \<Rightarrow> (string \<times> string) list \<Rightarrow> 32 word list \<Rightarrow> Service" where
  "mk_Service n as ps =
     \<lparr>svc_ObjectMeta = \<lparr>meta_Name = n, meta_Annotations = as\<rparr>,
      svc_Spec = \<lparr>spec_Ports = map (\<lambda>p. \<lparr>port_Port = p\<rparr>) ps\<rparr>\<rparr>"

definition svc_foo :: Service where
  "svc_foo = mk_Service ''foo'' [(''owner'', ''ci''), (urlKey, ''/foo-ext'')] [8080, 9090]"

definition svc_bar :: Service where
  "svc_bar = mk_Service ''bar'' [(''owner'', ''ci'')] [9090]"

definition svc_baz :: Service where
  "svc_baz = mk_Service ''baz'' [(urlKey, ''/foo-ext'')] [9000]"

definition svc_qux :: Service where
  "svc_qux = mk_Service ''qux'' [(urlKey, ''/qux'')] []"

definition svc_zero :: Service where
  "svc_zero = mk_Service ''zero'' [(urlKey, ''/zero'')] [0]"

definition svc_rel :: Service where
  "svc_rel = mk_Service ''rel'' [(urlKey, ''rel-ext'')] [8443]"

definition svc_bad :: Service where
  "svc_bad = mk_Service ''bad'' [(urlKey, ''/{id:[0-9}'')] [8443]"

text \<open>A cluster that answers the query for the extension label with the given items.\<close>

definition client_items :: "Service list \<Rightarrow> Resource" where
  "client_items items =
     \<lparr>K8sClient = (\<lambda>namespace selector. if selector = extensionLabel then Inr items else Inr [])\<rparr>"

definition client_unavailable :: Resource where
  "client_unavailable = \<lparr>K8sClient = (\<lambda>namespace selector. Inl ''connection refused'')\<rparr>"

definition st_empty :: state where
  "st_empty = \<lparr>container = [], log = []\<rparr>"

text \<open>The container after a pass that found no extension.\<close>

definition st_root :: state where
  "st_root =
     \<lparr>container =
        [\<lparr>rootPath = ''/'', consumes = [''application/json''],
          produces = [''application/json''], routes = []\<rparr>],
      log = [(INFO, ''Adding API for extensions'')]\<rparr>"

text \<open>A library that compiles every path but the one of \<open>bad\<close>.\<close>

definition compiles :: "string \<Rightarrow> bool" where
  "compiles path \<longleftrightarrow> path \<noteq> ''/{id:[0-9}''"

text \<open>
  A parser that accepts the one target \<open>http://foo:8080/\<close>, and a proxy that writes the
  target and the request it was given to the response.
\<close>

definition example_Parse :: "string \<Rightarrow> string + string" where
  "example_Parse s = (if s = ''http://foo:8080/'' then Inr s else Inl ''invalid port'')"

definition example_ServeHTTP :: "string \<Rightarrow> string list \<Rightarrow> string \<Rightarrow> string list" where
  "example_ServeHTTP target response request = response @ [target, request]"

section \<open>Properties\<close>

subsection \<open>The routing library\<close>

lemmas example_defs =
  mk_Service_def svc_foo_def svc_bar_def svc_baz_def svc_qux_def svc_zero_def svc_rel_def
  svc_bad_def client_items_def client_unavailable_def st_empty_def st_root_def compiles_def

lemmas closed_defs =
  endpoints_def malformed_def accepted_def stops_def ext_route_def service_routes_def
  service_log_def extension_routes_def extension_log_def extension_ws_def

lemmas Itoa_defs = Itoa_def digits.simps digit_def

lemmas restful_defs =
  ws_Route_def container_Add_def concatPath_def TrimLeft_def TrimRight_def new_WebService_def
  logging_def MIME_JSON_def

lemma concatPath_root: "concatPath ''/'' path = CHR ''/'' # dropWhile (\<lambda>c. c = CHR ''/'') path"
  by (simp add: concatPath_def TrimLeft_def TrimRight_def)

lemma concatPath_root_same:
  "concatPath ''/'' path = path \<longleftrightarrow>
     (\<exists>rest. path = CHR ''/'' # rest \<and> (rest = [] \<or> hd rest \<noteq> CHR ''/''))"
proof (cases path)
  case Nil
  then show ?thesis by (simp add: concatPath_root)
next
  case (Cons c rest)
  show ?thesis
  proof (cases "c = CHR ''/''")
    case True
    have "dropWhile (\<lambda>c. c = CHR ''/'') rest = rest \<longleftrightarrow> rest = [] \<or> hd rest \<noteq> CHR ''/''"
      by (simp add: dropWhile_eq_self_iff)
    with Cons True show ?thesis by (simp add: concatPath_root)
  next
    case False
    with Cons show ?thesis by (simp add: concatPath_root)
  qed
qed

lemma ws_Routes_closed:
  "ws_Routes np ws rs =
     (if list_all (\<lambda>r. np (fst (snd r))) rs
      then Inr (ws\<lparr>routes := routes ws @
                  map (\<lambda>r. \<lparr>Method = fst r, Path = concatPath (rootPath ws) (fst (snd r)),
                             Function = snd (snd r)\<rparr>) rs\<rparr>)
      else Inl Exit)"
  by (induction rs arbitrary: ws) (auto simp: ws_Route_def)

lemma RegisterEndpoints_closed:
  "RegisterEndpoints np r st =
     (if list_all (\<lambda>r. np (fst (snd r))) v1_routes \<and>
         ''/v1/namespaces'' \<notin> set (map rootPath (container st))
      then Inr (st\<lparr>container := container st @
                   [\<lparr>rootPath = ''/v1/namespaces'', consumes = [MIME_JSON], produces = [MIME_JSON],
                     routes = map (\<lambda>r. \<lparr>Method = fst r,
                                          Path = concatPath ''/v1/namespaces'' (fst (snd r)),
                                          Function = snd (snd r)\<rparr>) v1_routes\<rparr>],
                  log := log st @ [(INFO, ''Adding v1, and API for pipelines'')]\<rparr>)
      else Inl Exit)"
  by (auto simp: RegisterEndpoints_def Let_def ws_Routes_closed container_Add_def logging_def
        new_WebService_def)

subsection \<open>The loops\<close>

lemma annotations_loop_ports:
  "spec_Ports (svc_Spec svc) = p # ps \<Longrightarrow>
   annotations_loop np svc as (ws, st) =
     (if list_all np (map snd (filter (\<lambda>kv. fst kv = urlKey) as))
      then Inr (ws\<lparr>routes := routes ws @
                  map (\<lambda>url. ext_route (rootPath ws) svc url (Itoa (sint (port_Port p))))
                    (map snd (filter (\<lambda>kv. fst kv = urlKey) as))\<rparr>,
                st\<lparr>log := log st @
                  map (\<lambda>url. (DEBUG, ''extension URL: '' @ url))
                    (map snd (filter (\<lambda>kv. fst kv = urlKey) as))\<rparr>)
      else Inl Exit)"
  by (induction as arbitrary: ws st)
     (auto simp: getPort_def ws_Route_def logging_def ext_route_def)

lemma annotations_loop_no_key:
  "urlKey \<notin> set (map fst as) \<Longrightarrow> annotations_loop np svc as (ws, st) = Inr (ws, st)"
  by (induction as) auto

lemma annotations_loop_no_ports:
  "urlKey \<in> set (map fst as) \<Longrightarrow> spec_Ports (svc_Spec svc) = [] \<Longrightarrow>
   annotations_loop np svc as (ws, st) = Inl IndexOutOfRange"
  by (induction as) (auto simp: getPort_def)

lemma endpoints_empty:
  "endpoints svc = [] \<longleftrightarrow> urlKey \<notin> set (map fst (meta_Annotations (svc_ObjectMeta svc)))"
  by (force simp: endpoints_def filter_empty_conv)

lemma endpoints_distinct:
  assumes "distinct (map fst (meta_Annotations (svc_ObjectMeta svc)))"
    and "(urlKey, url) \<in> set (meta_Annotations (svc_ObjectMeta svc))"
  shows "endpoints svc = [url]"
proof -
  have "distinct (map fst as) \<Longrightarrow> (urlKey, url) \<in> set as \<Longrightarrow>
        map snd (filter (\<lambda>kv. fst kv = urlKey) as) = [url]" for as
  proof (induction as)
    case Nil
    then show ?case by simp
  next
    case (Cons a as)
    show ?case
    proof (cases "fst a = urlKey")
      case True
      with Cons.prems have "urlKey \<notin> fst ` set as" and "snd a = url"
        by (auto simp: image_iff)
      then have "filter (\<lambda>kv. fst kv = urlKey) as = []"
        by (force simp: filter_empty_conv)
      with True \<open>snd a = url\<close> show ?thesis by simp
    next
      case False
      with Cons show ?thesis by auto
    qed
  qed
  with assms show ?thesis by (simp add: endpoints_def)
qed

lemma service_step:
  "annotations_loop np svc (meta_Annotations (svc_ObjectMeta svc)) (ws, st) =
     (case stops np svc of
        Some a \<Rightarrow> Inl a
      | None \<Rightarrow> Inr (ws\<lparr>routes := routes ws @ service_routes (rootPath ws) svc\<rparr>,
                      st\<lparr>log := log st @ service_log svc\<rparr>))"
proof (cases "spec_Ports (svc_Spec svc)")
  case Nil
  show ?thesis
  proof (cases "urlKey \<in> set (map fst (meta_Annotations (svc_ObjectMeta svc)))")
    case True
    with Nil show ?thesis
      by (simp add: stops_def malformed_def annotations_loop_no_ports)
  next
    case False
    then have "endpoints svc = []" by (simp add: endpoints_empty)
    with False Nil show ?thesis
      by (simp add: stops_def malformed_def service_routes_def service_log_def
            annotations_loop_no_key)
  qed
next
  case (Cons p ps)
  then show ?thesis
    by (simp add: stops_def malformed_def service_routes_def service_log_def endpoints_def
          annotations_loop_ports)
qed

lemma services_loop_closed:
  "services_loop np svcs (ws, st) =
     (case first_stop np svcs of
        Some a \<Rightarrow> Inl a
      | None \<Rightarrow> Inr (ws\<lparr>routes := routes ws @ extension_routes (rootPath ws) svcs\<rparr>,
                      st\<lparr>log := log st @ extension_log svcs\<rparr>))"
proof (induction svcs arbitrary: ws st)
  case Nil
  then show ?case by (simp add: extension_routes_def extension_log_def)
next
  case (Cons svc svcs)
  show ?case
  proof (cases "stops np svc")
    case None
    then show ?thesis
      by (simp add: service_step Cons.IH extension_routes_def extension_log_def
            split: option.splits)
  next
    case (Some a)
    then show ?thesis by (simp add: service_step)
  qed
qed

lemma services_loop_append:
  "services_loop np (xs @ ys) (ws, st) =
     (case services_loop np xs (ws, st) of
        Inl a \<Rightarrow> Inl a
      | Inr s \<Rightarrow> services_loop np ys s)"
proof (induction xs arbitrary: ws st)
  case Nil
  then show ?case by simp
next
  case (Cons x xs)
  then show ?case by (simp split: sum.splits prod.splits)
qed

lemma first_stop_None: "first_stop np svcs = None \<longleftrightarrow> (\<forall>s \<in> set svcs. accepted np s)"
  by (induction svcs) (auto simp: stops_def accepted_def split: option.splits if_splits)

lemma first_stop_malformed:
  "\<exists>s \<in> set svcs. malformed s \<Longrightarrow>
   first_stop np svcs = Some IndexOutOfRange \<or> first_stop np svcs = Some Exit"
  by (induction svcs) (auto simp: stops_def split: option.splits if_splits)

lemma first_stop_panic:
  "\<exists>s \<in> set svcs. malformed s \<Longrightarrow> \<forall>s \<in> set svcs. list_all np (endpoints s) \<Longrightarrow>
   first_stop np svcs = Some IndexOutOfRange"
  by (induction svcs) (auto simp: stops_def split: option.splits if_splits)

lemma RegisterExtension_items:
  assumes "K8sClient r namespace extensionLabel = Inr svcs"
  shows "RegisterExtension np r st namespace =
     (case first_stop np svcs of
        Some a \<Rightarrow> Inl a
      | None \<Rightarrow>
          (if ''/'' \<in> set (map rootPath (container st)) then Inl Exit
           else Inr (st\<lparr>container := container st @ [extension_ws svcs],
                        log := log st @ (INFO, ''Adding API for extensions'') # extension_log svcs\<rparr>)))"
  using assms
  by (simp add: RegisterExtension_def services_loop_closed logging_def container_Add_def
        new_WebService_def extension_ws_def split: option.splits)

lemma RegisterExtension_accepted:
  assumes "K8sClient r namespace extensionLabel = Inr svcs"
    and "\<forall>s \<in> set svcs. accepted np s"
    and "''/'' \<notin> set (map rootPath (container st))"
  shows "RegisterExtension np r st namespace =
     Inr (st\<lparr>container := container st @ [extension_ws svcs],
             log := log st @ (INFO, ''Adding API for extensions'') # extension_log svcs\<rparr>)"
proof -
  from assms(2) have "first_stop np svcs = None" by (simp add: first_stop_None)
  with assms(3) show ?thesis by (simp add: RegisterExtension_items [OF assms(1)])
qed

lemma RegisterExtension_returns:
  assumes "K8sClient r namespace extensionLabel = Inr svcs"
    and "RegisterExtension np r st namespace = Inr st'"
  shows "(\<forall>s \<in> set svcs. accepted np s) \<and> ''/'' \<notin> set (map rootPath (container st)) \<and>
         st' = st\<lparr>container := container st @ [extension_ws svcs],
                  log := log st @ (INFO, ''Adding API for extensions'') # extension_log svcs\<rparr>"
  using assms(2) unfolding RegisterExtension_items [OF assms(1)]
  by (auto simp: first_stop_None [symmetric] split: option.splits if_splits)

lemma RegisterExtension_unavailable:
  assumes "K8sClient r namespace extensionLabel = Inl err"
  shows "RegisterExtension np r st namespace =
     Inr (st\<lparr>log := log st @
            [(INFO, ''Adding API for extensions''), (ERROR, ''no extension found: '' @ err)]\<rparr>)"
  using assms by (simp add: RegisterExtension_def logging_def)

lemma service_routes_endpoint:
  assumes "distinct (map fst (meta_Annotations (svc_ObjectMeta svc)))"
    and "(urlKey, url) \<in> set (meta_Annotations (svc_ObjectMeta svc))"
    and "spec_Ports (svc_Spec svc) = p # ps"
  shows "service_routes root svc = [ext_route root svc url (Itoa (sint (port_Port p)))]"
    and "service_log svc = [(DEBUG, ''extension URL: '' @ url)]"
    and "\<not> malformed svc"
    and "accepted np svc \<longleftrightarrow> np url"
  using assms endpoints_distinct [OF assms(1,2)]
  by (simp_all add: service_routes_def service_log_def malformed_def accepted_def)

subsection \<open>Decimal strings\<close>

lemma digit_value_digit: "d < 10 \<Longrightarrow> digit_value (digit d) = Some d"
proof -
  assume "d < 10"
  then have "d \<in> {0, 1, 2, 3, 4, 5, 6, 7, 8, 9}" by auto
  then show ?thesis
    by (auto simp: digit_def digit_value_def)
qed

lemma decimal_acc_snoc:
  "decimal_acc a (cs @ [c]) =
     (case decimal_acc a cs of None \<Rightarrow> None
      | Some v \<Rightarrow> (case digit_value c of None \<Rightarrow> None | Some d \<Rightarrow> Some (10 * v + d)))"
  by (induction cs arbitrary: a) (auto split: option.splits)

lemma digits_nonempty: "digits n \<noteq> []"
  by (subst digits.simps) simp

lemma decimal_acc_digits: "decimal_acc 0 (digits n) = Some n"
proof (induction n rule: digits.induct)
  case (1 n)
  show ?case
  proof (cases "n < 10")
    case True
    then show ?thesis
      by (subst digits.simps) (simp add: digit_value_digit)
  next
    case False
    then have "decimal_acc 0 (digits (n div 10)) = Some (n div 10)"
      using "1.IH" by simp
    then show ?thesis
      using False by (subst digits.simps) (simp add: decimal_acc_snoc digit_value_digit)
  qed
qed

lemma positive_integer_Itoa: "positive_integer (Itoa i) \<longleftrightarrow> 0 < i"
proof (cases "i < 0")
  case True
  then show ?thesis
    by (simp add: positive_integer_def Itoa_def digit_value_def)
next
  case False
  then show ?thesis
    using digits_nonempty [of "nat i"]
    by (simp add: positive_integer_def Itoa_def decimal_acc_digits)
qed


subsection \<open>Services with the annotation and no port\<close>

text \<open>
  C1 asks that a service with the endpoint annotation and an empty \<open>spec.ports\<close> is
  skipped, the pass completing, and that \<open>getPort\<close> is never evaluated on an empty port
  list. The code does the opposite: \<open>getPort\<close> indexes the empty slice of such a service,
  and whenever the items of the query contain one the pass never returns; it ends in the
  index-out-of-range panic, unless the library has stopped the process before on a path
  of an earlier service that it does not compile. Nothing is added to the container.
\<close>

theorem RegisterExtension_empty_ports_panics:
  assumes "K8sClient r namespace extensionLabel = Inr svcs"
    and "svc \<in> set svcs"
    and "(urlKey, url) \<in> set (meta_Annotations (svc_ObjectMeta svc))"
    and "spec_Ports (svc_Spec svc) = []"
  shows "getPort svc = Inl IndexOutOfRange \<and>
         (RegisterExtension newPathExpression r st namespace = Inl IndexOutOfRange \<or>
          RegisterExtension newPathExpression r st namespace = Inl Exit) \<and>
         (list_all (\<lambda>s. list_all newPathExpression (endpoints s)) svcs \<longrightarrow>
          RegisterExtension newPathExpression r st namespace = Inl IndexOutOfRange)"
proof -
  from assms(3) have "urlKey \<in> set (map fst (meta_Annotations (svc_ObjectMeta svc)))"
    by force
  with assms(4) have "malformed svc" by (simp add: malformed_def)
  with assms(2) have m: "\<exists>s \<in> set svcs. malformed s" by blast
  have "RegisterExtension newPathExpression r st namespace = Inl IndexOutOfRange \<or>
        RegisterExtension newPathExpression r st namespace = Inl Exit"
    using first_stop_malformed [OF m, of newPathExpression]
    by (auto simp: RegisterExtension_items [OF assms(1)])
  moreover have "RegisterExtension newPathExpression r st namespace = Inl IndexOutOfRange"
    if "list_all (\<lambda>s. list_all newPathExpression (endpoints s)) svcs"
    using first_stop_panic [OF m, of newPathExpression] that
    by (simp add: RegisterExtension_items [OF assms(1)] list_all_iff)
  moreover from assms(4) have "getPort svc = Inl IndexOutOfRange"
    by (simp add: getPort_def)
  ultimately show ?thesis by blast
qed

theorem RegisterExtension_empty_ports_panics_witness:
  "K8sClient (client_items [svc_foo, svc_qux]) ''default'' extensionLabel = Inr [svc_foo, svc_qux] \<and>
   svc_qux \<in> set [svc_foo, svc_qux] \<and>
   (urlKey, ''/qux'') \<in> set (meta_Annotations (svc_ObjectMeta svc_qux)) \<and>
   spec_Ports (svc_Spec svc_qux) = [] \<and>
   list_all (\<lambda>s. list_all compiles (endpoints s)) [svc_foo, svc_qux] \<and>
   getPort svc_qux = Inl IndexOutOfRange \<and>
   RegisterExtension compiles (client_items [svc_foo, svc_qux]) st_empty ''default''
     = Inl IndexOutOfRange"
proof -
  have h1: "K8sClient (client_items [svc_foo, svc_qux]) ''default'' extensionLabel
              = Inr [svc_foo, svc_qux]"
    by (simp add: client_items_def)
  have h2: "svc_qux \<in> set [svc_foo, svc_qux]" by simp
  have h3: "(urlKey, ''/qux'') \<in> set (meta_Annotations (svc_ObjectMeta svc_qux))"
    by (simp add: svc_qux_def mk_Service_def)
  have h4: "spec_Ports (svc_Spec svc_qux) = []"
    by (simp add: svc_qux_def mk_Service_def)
  have h5: "list_all (\<lambda>s. list_all compiles (endpoints s)) [svc_foo, svc_qux]"
    by (simp add: endpoints_def svc_foo_def svc_qux_def mk_Service_def compiles_def urlKey_def)
  from RegisterExtension_empty_ports_panics [OF h1 h2 h3 h4, of compiles st_empty] h1 h2 h3 h4 h5
  show ?thesis by simp
qed

subsection \<open>Services without the endpoint annotation\<close>

text \<open>
  C6: a service returned by the query whose annotations lack the key
  \<open>tekton-dashboard-endpoints\<close> gets no route and raises no error: its turn in the loop
  leaves the web service and the log as they are, and the pass over the items with that
  service gives the same result as the pass over the items without it.
\<close>

theorem RegisterExtension_skips_unannotated:
  assumes "urlKey \<notin> set (map fst (meta_Annotations (svc_ObjectMeta svc)))"
    and "K8sClient r namespace extensionLabel = Inr (xs @ svc # ys)"
    and "K8sClient r' namespace extensionLabel = Inr (xs @ ys)"
  shows "annotations_loop newPathExpression svc (meta_Annotations (svc_ObjectMeta svc)) (ws, st)
           = Inr (ws, st) \<and>
         RegisterExtension newPathExpression r st namespace =
           RegisterExtension newPathExpression r' st namespace"
proof -
  have skip: "annotations_loop newPathExpression svc (meta_Annotations (svc_ObjectMeta svc)) s
                = Inr s" for s
    using assms(1) by (cases s) (simp add: annotations_loop_no_key)
  have "services_loop newPathExpression (svc # ys) s = services_loop newPathExpression ys s" for s
    by (cases s) (simp add: skip)
  then have "services_loop newPathExpression (xs @ svc # ys) s =
             services_loop newPathExpression (xs @ ys) s" for s
    by (cases s) (simp add: services_loop_append split: sum.splits)
  then have "RegisterExtension newPathExpression r st namespace =
             RegisterExtension newPathExpression r' st namespace"
    by (simp add: RegisterExtension_def assms(2,3))
  with skip show ?thesis by simp
qed

theorem RegisterExtension_skips_unannotated_witness:
  "urlKey \<notin> set (map fst (meta_Annotations (svc_ObjectMeta svc_bar))) \<and>
   K8sClient (client_items [svc_foo, svc_bar]) ''default'' extensionLabel = Inr ([svc_foo] @ svc_bar # []) \<and>
   K8sClient (client_items [svc_foo]) ''default'' extensionLabel = Inr ([svc_foo] @ []) \<and>
   annotations_loop compiles svc_bar (meta_Annotations (svc_ObjectMeta svc_bar))
       (new_WebService, st_empty)
     = Inr (new_WebService, st_empty) \<and>
   RegisterExtension compiles (client_items [svc_foo, svc_bar]) st_empty ''default''
     = RegisterExtension compiles (client_items [svc_foo]) st_empty ''default'' \<and>
   RegisterExtension compiles (client_items [svc_foo, svc_bar]) st_empty ''default''
     = Inr \<lparr>container =
              [\<lparr>rootPath = ''/'', consumes = [''application/json''], produces = [''application/json''],
                routes = [\<lparr>Method = ''POST'', Path = ''/foo-ext'',
                           Function = ExtensionHandler
                             \<lparr>Name = ''foo'', URL = ''/foo-ext'', Port = ''8080''\<rparr>\<rparr>]\<rparr>],
            log = [(INFO, ''Adding API for extensions''), (DEBUG, ''extension URL: /foo-ext'')]\<rparr>"
proof -
  have h1: "urlKey \<notin> set (map fst (meta_Annotations (svc_ObjectMeta svc_bar)))"
    by (simp add: svc_bar_def mk_Service_def urlKey_def)
  have h2: "K8sClient (client_items [svc_foo, svc_bar]) ''default'' extensionLabel
              = Inr ([svc_foo] @ svc_bar # [])"
    by (simp add: client_items_def)
  have h3: "K8sClient (client_items [svc_foo]) ''default'' extensionLabel = Inr ([svc_foo] @ [])"
    by (simp add: client_items_def)
  have v: "RegisterExtension compiles (client_items [svc_foo]) st_empty ''default''
     = Inr \<lparr>container =
              [\<lparr>rootPath = ''/'', consumes = [''application/json''], produces = [''application/json''],
                routes = [\<lparr>Method = ''POST'', Path = ''/foo-ext'',
                           Function = ExtensionHandler
                             \<lparr>Name = ''foo'', URL = ''/foo-ext'', Port = ''8080''\<rparr>\<rparr>]\<rparr>],
            log = [(INFO, ''Adding API for extensions''), (DEBUG, ''extension URL: /foo-ext'')]\<rparr>"
    by (simp add: RegisterExtension_def example_defs restful_defs getPort_def Itoa_defs urlKey_def)
  from RegisterExtension_skips_unannotated [OF h1 h2 h3, of compiles new_WebService st_empty]
    h1 h2 h3 v
  show ?thesis by simp
qed


subsection \<open>Failure of the cluster query\<close>

text \<open>
  C5: when the list query of \<open>RegisterExtension\<close> fails, the error is logged, the pass
  returns normally (no panic, no exit) and registers nothing: the container is the one
  \<open>RegisterEndpoints\<close> left when it registered the primary routes, which still holds the
  web service \<open>/v1/namespaces\<close> with its nineteen routes, the pipeline list among them.
\<close>

theorem discovery_failure_keeps_primary_routes:
  assumes "K8sClient r namespace extensionLabel = Inl err"
    and "RegisterEndpoints newPathExpression r st = Inr st1"
  shows "\<exists>st' wsv1.
           RegisterExtension newPathExpression r st1 namespace = Inr st' \<and>
           log st' = log st1 @
             [(INFO, ''Adding API for extensions''), (ERROR, ''no extension found: '' @ err)] \<and>
           container st' = container st1 \<and>
           container st' = container st @ [wsv1] \<and>
           rootPath wsv1 = ''/v1/namespaces'' \<and>
           length (routes wsv1) = 19 \<and>
           \<lparr>Method = ''GET'', Path = ''/v1/namespaces/{namespace}/pipeline'',
            Function = ResourceHandler ''getAllPipelines''\<rparr> \<in> set (routes wsv1)"
proof -
  let ?wsv1 = "\<lparr>rootPath = ''/v1/namespaces'', consumes = [MIME_JSON], produces = [MIME_JSON],
                 routes = map (\<lambda>r. \<lparr>Method = fst r,
                                      Path = concatPath ''/v1/namespaces'' (fst (snd r)),
                                      Function = snd (snd r)\<rparr>) v1_routes\<rparr>"
  from assms(2) have c: "container st1 = container st @ [?wsv1]"
    unfolding RegisterEndpoints_closed by (auto split: if_splits)
  have "length (routes ?wsv1) = 19"
    by (simp add: v1_routes_def)
  moreover have "\<lparr>Method = ''GET'', Path = ''/v1/namespaces/{namespace}/pipeline'',
            Function = ResourceHandler ''getAllPipelines''\<rparr> \<in> set (routes ?wsv1)"
    by (simp add: v1_routes_def concatPath_def TrimLeft_def TrimRight_def)
  ultimately show ?thesis
    unfolding RegisterExtension_unavailable [OF assms(1)]
    using c by simp
qed

theorem discovery_failure_keeps_primary_routes_witness:
  "K8sClient client_unavailable ''default'' extensionLabel = Inl ''connection refused'' \<and>
   (\<exists>st1. RegisterEndpoints compiles client_unavailable st_empty = Inr st1 \<and>
     (\<exists>st' wsv1.
        RegisterExtension compiles client_unavailable st1 ''default'' = Inr st' \<and>
        log st' = log st1 @
          [(INFO, ''Adding API for extensions''),
           (ERROR, ''no extension found: '' @ ''connection refused'')] \<and>
        container st' = container st1 \<and>
        container st' = container st_empty @ [wsv1] \<and>
        rootPath wsv1 = ''/v1/namespaces'' \<and>
        length (routes wsv1) = 19 \<and>
        \<lparr>Method = ''GET'', Path = ''/v1/namespaces/{namespace}/pipeline'',
         Function = ResourceHandler ''getAllPipelines''\<rparr> \<in> set (routes wsv1)))"
proof -
  have h1: "K8sClient client_unavailable ''default'' extensionLabel = Inl ''connection refused''"
    by (simp add: client_unavailable_def)
  have "list_all (\<lambda>r. compiles (fst (snd r))) v1_routes"
    by (simp add: v1_routes_def compiles_def)
  then obtain st1 where h2: "RegisterEndpoints compiles client_unavailable st_empty = Inr st1"
    by (simp add: RegisterEndpoints_closed st_empty_def)
  from discovery_failure_keeps_primary_routes [OF h1 h2] h1 h2
  show ?thesis by simp
qed

text \<open>
  C10 says that a successful query always adds a web service rooted at \<open>/\<close>. It does
  not when the pass stops short: for the items \<open>[qux]\<close> the query succeeds and the pass
  panics before \<open>container.Add\<close>; and a second pass, on the container that a first pass
  left, makes \<open>container.Add\<close> exit on the root path \<open>/\<close> that is there already.
\<close>

theorem RegisterExtension_container_counterexample:
  "K8sClient (client_items [svc_qux]) ''default'' extensionLabel = Inr [svc_qux] \<and>
   RegisterExtension compiles (client_items [svc_qux]) st_empty ''default'' = Inl IndexOutOfRange \<and>
   K8sClient (client_items []) ''default'' extensionLabel = Inr [] \<and>
   RegisterExtension compiles (client_items []) st_empty ''default'' = Inr st_root \<and>
   RegisterExtension compiles (client_items []) st_root ''default'' = Inl Exit"
  by (simp add: RegisterExtension_def example_defs restful_defs getPort_def urlKey_def)

text \<open>
  C10, as amended: if the list query fails, \<open>RegisterExtension\<close> returns with the
  container unchanged. If the query succeeds, the pass returns exactly when every item is
  accepted (none has the annotation with an empty port list, and the library compiles
  every annotated path) and the container holds no web service rooted at \<open>/\<close> yet; it
  then adds exactly one web service, rooted at \<open>/\<close>, with the routes of the items, also
  when there is no item at all.
\<close>

theorem RegisterExtension_container:
  "(K8sClient r namespace extensionLabel = Inl err \<longrightarrow>
      (\<exists>st'. RegisterExtension newPathExpression r st namespace = Inr st' \<and>
         container st' = container st)) \<and>
   (K8sClient r namespace extensionLabel = Inr [] \<and>
    ''/'' \<notin> set (map rootPath (container st)) \<longrightarrow>
      (\<exists>st'. RegisterExtension newPathExpression r st namespace = Inr st' \<and>
         container st' = container st @
           [\<lparr>rootPath = ''/'', consumes = [MIME_JSON], produces = [MIME_JSON], routes = []\<rparr>])) \<and>
   (K8sClient r namespace extensionLabel = Inr svcs \<and>
    (\<forall>svc \<in> set svcs. accepted newPathExpression svc) \<and>
    ''/'' \<notin> set (map rootPath (container st)) \<longrightarrow>
      (\<exists>st' ws. RegisterExtension newPathExpression r st namespace = Inr st' \<and>
         container st' = container st @ [ws] \<and> rootPath ws = ''/'' \<and>
         routes ws = extension_routes ''/'' svcs)) \<and>
   (K8sClient r namespace extensionLabel = Inr svcs \<and>
    RegisterExtension newPathExpression r st namespace = Inr st' \<longrightarrow>
      (\<forall>svc \<in> set svcs. accepted newPathExpression svc) \<and>
      ''/'' \<notin> set (map rootPath (container st)) \<and>
      (\<exists>ws. container st' = container st @ [ws] \<and> rootPath ws = ''/''))"
proof (intro conjI impI)
  assume "K8sClient r namespace extensionLabel = Inl err"
  then show "\<exists>st'. RegisterExtension newPathExpression r st namespace = Inr st' \<and>
               container st' = container st"
    by (simp add: RegisterExtension_unavailable)
next
  assume "K8sClient r namespace extensionLabel = Inr [] \<and>
          ''/'' \<notin> set (map rootPath (container st))"
  then show "\<exists>st'. RegisterExtension newPathExpression r st namespace = Inr st' \<and>
         container st' = container st @
           [\<lparr>rootPath = ''/'', consumes = [MIME_JSON], produces = [MIME_JSON], routes = []\<rparr>]"
    by (simp add: RegisterExtension_accepted extension_ws_def extension_routes_def)
next
  assume "K8sClient r namespace extensionLabel = Inr svcs \<and>
          (\<forall>svc \<in> set svcs. accepted newPathExpression svc) \<and>
          ''/'' \<notin> set (map rootPath (container st))"
  then show "\<exists>st' ws. RegisterExtension newPathExpression r st namespace = Inr st' \<and>
         container st' = container st @ [ws] \<and> rootPath ws = ''/'' \<and>
         routes ws = extension_routes ''/'' svcs"
    by (simp add: RegisterExtension_accepted extension_ws_def)
next
  assume a: "K8sClient r namespace extensionLabel = Inr svcs \<and>
          RegisterExtension newPathExpression r st namespace = Inr st'"
  note ret = RegisterExtension_returns [OF conjunct1 [OF a] conjunct2 [OF a]]
  from ret show "\<forall>svc \<in> set svcs. accepted newPathExpression svc" by blast
  from ret show "''/'' \<notin> set (map rootPath (container st))" by blast
  from ret show "\<exists>ws. container st' = container st @ [ws] \<and> rootPath ws = ''/''"
    by (simp add: extension_ws_def)
qed

theorem RegisterExtension_container_witness:
  "K8sClient client_unavailable ''default'' extensionLabel = Inl ''connection refused'' \<and>
   (\<exists>st'. RegisterExtension compiles client_unavailable st_root ''default'' = Inr st' \<and>
      container st' = container st_root) \<and>
   K8sClient (client_items []) ''default'' extensionLabel = Inr [] \<and>
   ''/'' \<notin> set (map rootPath (container st_empty)) \<and>
   (\<exists>st'. RegisterExtension compiles (client_items []) st_empty ''default'' = Inr st' \<and>
      container st' = container st_empty @
        [\<lparr>rootPath = ''/'', consumes = [MIME_JSON], produces = [MIME_JSON], routes = []\<rparr>]) \<and>
   K8sClient (client_items [svc_foo, svc_bar]) ''default'' extensionLabel = Inr [svc_foo, svc_bar] \<and>
   accepted compiles svc_foo \<and> accepted compiles svc_bar \<and>
   (\<exists>st' ws. RegisterExtension compiles (client_items [svc_foo, svc_bar]) st_empty ''default'' = Inr st' \<and>
      container st' = container st_empty @ [ws] \<and> rootPath ws = ''/'' \<and>
      routes ws = extension_routes ''/'' [svc_foo, svc_bar]) \<and>
   RegisterExtension compiles (client_items []) st_empty ''default'' = Inr st_root \<and>
   (\<exists>ws. container st_root = container st_empty @ [ws] \<and> rootPath ws = ''/'')"
proof -
  have h1: "K8sClient client_unavailable ''default'' extensionLabel = Inl ''connection refused''"
    by (simp add: client_unavailable_def)
  have h2: "K8sClient (client_items []) ''default'' extensionLabel = Inr []"
    by (simp add: client_items_def)
  have h3: "K8sClient (client_items [svc_foo, svc_bar]) ''default'' extensionLabel
              = Inr [svc_foo, svc_bar]"
    by (simp add: client_items_def)
  have h4: "accepted compiles svc_foo" "accepted compiles svc_bar"
    by (simp_all add: accepted_def malformed_def endpoints_def svc_foo_def svc_bar_def
          mk_Service_def compiles_def urlKey_def)
  have h5: "''/'' \<notin> set (map rootPath (container st_empty))"
    by (simp add: st_empty_def)
  have h6: "RegisterExtension compiles (client_items []) st_empty ''default'' = Inr st_root"
    by (simp add: RegisterExtension_def example_defs restful_defs)
  from RegisterExtension_container
         [of client_unavailable "''default''" "''connection refused''" compiles st_root "[]"]
       RegisterExtension_container
         [of "client_items []" "''default''" "''connection refused''" compiles st_empty "[]"]
       RegisterExtension_container
         [of "client_items [svc_foo, svc_bar]" "''default''" "''connection refused''" compiles
            st_empty "[svc_foo, svc_bar]"]
       RegisterExtension_container
         [of "client_items []" "''default''" "''connection refused''" compiles st_empty "[]"
            st_root]
       h1 h2 h3 h4 h5 h6
  show ?thesis by simp
qed


subsection \<open>One route for each extension\<close>

text \<open>
  C3 says that every service of the query with the endpoint annotation and a port gets
  a route whose path is exactly the value of the annotation. \<open>foo\<close> is such a service
  and gets no route when \<open>qux\<close> makes the pass panic, when the library exits on the path of
  \<open>bad\<close>, or when the container already holds a web service rooted at \<open>/\<close>; and the
  route of \<open>rel\<close> has the path \<open>/rel-ext\<close>, not the value \<open>rel-ext\<close> of the annotation.
\<close>

theorem RegisterExtension_registers_route_counterexample:
  "RegisterExtension compiles (client_items [svc_foo, svc_qux]) st_empty ''default''
     = Inl IndexOutOfRange \<and>
   RegisterExtension compiles (client_items [svc_foo, svc_bad]) st_empty ''default''
     = Inl Exit \<and>
   RegisterExtension compiles (client_items [svc_foo]) st_root ''default''
     = Inl Exit \<and>
   RegisterExtension compiles (client_items [svc_rel]) st_empty ''default''
     = Inr \<lparr>container =
              [\<lparr>rootPath = ''/'', consumes = [''application/json''], produces = [''application/json''],
                routes = [\<lparr>Method = ''POST'', Path = ''/rel-ext'',
                           Function = ExtensionHandler
                             \<lparr>Name = ''rel'', URL = ''rel-ext'', Port = ''8443''\<rparr>\<rparr>]\<rparr>],
            log = [(INFO, ''Adding API for extensions''), (DEBUG, ''extension URL: rel-ext'')]\<rparr> \<and>
   registered_at ''rel-ext''
     (RegisterExtension compiles (client_items [svc_rel]) st_empty ''default'') = []"
  by (simp add: registered_at_def RegisterExtension_def example_defs restful_defs getPort_def
        Itoa_defs urlKey_def)

text \<open>
  C3, as amended: in a pass that completes (the library compiles the annotated paths, no
  other item has the annotation with an empty port list, and the container holds no web
  service rooted at \<open>/\<close> yet), a service returned by the query that has the annotation
  \<open>tekton-dashboard-endpoints\<close> (annotations being a map, its keys are distinct) and at
  least one port gets exactly one route, between the routes of the services before it
  and those of the services after it: a \<open>POST\<close> route handled by the extension built
  from the name of the service and its first declared port. Its path is the value of the
  annotation joined to the root \<open>/\<close>, that is the value with its leading slashes
  replaced by one slash; it is the value itself exactly when the value starts with a
  single slash.
\<close>

theorem RegisterExtension_registers_route:
  assumes "K8sClient r namespace extensionLabel = Inr (xs @ svc # ys)"
    and "distinct (map fst (meta_Annotations (svc_ObjectMeta svc)))"
    and "(urlKey, url) \<in> set (meta_Annotations (svc_ObjectMeta svc))"
    and "spec_Ports (svc_Spec svc) = p # ps"
    and "newPathExpression url"
    and "\<forall>s \<in> set xs \<union> set ys. accepted newPathExpression s"
    and "''/'' \<notin> set (map rootPath (container st))"
  shows "RegisterExtension newPathExpression r st namespace =
     Inr (st\<lparr>container := container st @
                 [\<lparr>rootPath = ''/'', consumes = [MIME_JSON], produces = [MIME_JSON],
                   routes = extension_routes ''/'' xs @
                     [\<lparr>Method = ''POST'', Path = concatPath ''/'' url,
                       Function = ExtensionHandler
                         \<lparr>Name = meta_Name (svc_ObjectMeta svc), URL = url,
                          Port = Itoa (sint (port_Port p))\<rparr>\<rparr>] @
                     extension_routes ''/'' ys\<rparr>],
              log := log st @ [(INFO, ''Adding API for extensions'')] @ extension_log xs @
                 [(DEBUG, ''extension URL: '' @ url)] @ extension_log ys\<rparr>) \<and>
   concatPath ''/'' url = CHR ''/'' # dropWhile (\<lambda>c. c = CHR ''/'') url \<and>
   ((concatPath ''/'' url = url) =
      (\<exists>rest. url = CHR ''/'' # rest \<and> (rest = [] \<or> hd rest \<noteq> CHR ''/'')))"
proof -
  note one = service_routes_endpoint [OF assms(2,3,4)]
  from one(4) [of newPathExpression] assms(5,6)
  have "\<forall>s \<in> set (xs @ svc # ys). accepted newPathExpression s" by auto
  note reg = RegisterExtension_accepted [OF assms(1) this assms(7)]
  have "extension_routes ''/'' (xs @ svc # ys) =
      extension_routes ''/'' xs @ [ext_route ''/'' svc url (Itoa (sint (port_Port p)))] @
      extension_routes ''/'' ys"
    using one(1) by (simp add: extension_routes_def)
  moreover have "extension_log (xs @ svc # ys) =
      extension_log xs @ [(DEBUG, ''extension URL: '' @ url)] @ extension_log ys"
    using one(2) by (simp add: extension_log_def)
  ultimately show ?thesis
    unfolding reg
    by (simp add: extension_ws_def ext_route_def concatPath_root [symmetric]
          concatPath_root_same)
qed

theorem RegisterExtension_registers_route_witness:
  "K8sClient (client_items [svc_bar, svc_foo]) ''default'' extensionLabel = Inr ([svc_bar] @ svc_foo # []) \<and>
   distinct (map fst (meta_Annotations (svc_ObjectMeta svc_foo))) \<and>
   (urlKey, ''/foo-ext'') \<in> set (meta_Annotations (svc_ObjectMeta svc_foo)) \<and>
   spec_Ports (svc_Spec svc_foo) = \<lparr>port_Port = 8080\<rparr> # [\<lparr>port_Port = 9090\<rparr>] \<and>
   compiles ''/foo-ext'' \<and>
   accepted compiles svc_bar \<and>
   ''/'' \<notin> set (map rootPath (container st_empty)) \<and>
   RegisterExtension compiles (client_items [svc_bar, svc_foo]) st_empty ''default'' =
     Inr \<lparr>container =
            [\<lparr>rootPath = ''/'', consumes = [''application/json''], produces = [''application/json''],
              routes = [\<lparr>Method = ''POST'', Path = ''/foo-ext'',
                         Function = ExtensionHandler
                           \<lparr>Name = ''foo'', URL = ''/foo-ext'', Port = ''8080''\<rparr>\<rparr>]\<rparr>],
          log = [(INFO, ''Adding API for extensions''), (DEBUG, ''extension URL: /foo-ext'')]\<rparr>"
proof -
  have h1: "K8sClient (client_items [svc_bar, svc_foo]) ''default'' extensionLabel
              = Inr ([svc_bar] @ svc_foo # [])"
    by (simp add: client_items_def)
  have h2: "distinct (map fst (meta_Annotations (svc_ObjectMeta svc_foo)))"
    by (simp add: svc_foo_def mk_Service_def urlKey_def)
  have h3: "(urlKey, ''/foo-ext'') \<in> set (meta_Annotations (svc_ObjectMeta svc_foo))"
    by (simp add: svc_foo_def mk_Service_def)
  have h4: "spec_Ports (svc_Spec svc_foo) = \<lparr>port_Port = 8080\<rparr> # [\<lparr>port_Port = 9090\<rparr>]"
    by (simp add: svc_foo_def mk_Service_def)
  have h5: "compiles ''/foo-ext''"
    by (simp add: compiles_def)
  have b: "accepted compiles svc_bar"
    by (simp add: accepted_def malformed_def endpoints_def svc_bar_def mk_Service_def urlKey_def)
  then have h6: "\<forall>s \<in> set [svc_bar] \<union> set []. accepted compiles s" by simp
  have h7: "''/'' \<notin> set (map rootPath (container st_empty))"
    by (simp add: st_empty_def)
  have e: "extension_routes ''/'' [svc_bar] = []" "extension_log [svc_bar] = []"
    "extension_routes ''/'' [] = []" "extension_log [] = []"
    by (simp_all add: closed_defs svc_bar_def mk_Service_def urlKey_def)
  have n: "meta_Name (svc_ObjectMeta svc_foo) = ''foo''"
    by (simp add: svc_foo_def mk_Service_def)
  from RegisterExtension_registers_route [OF h1 h2 h3 h4 h5 h6 h7] h1 h2 h3 h4 h5 b h7
  show ?thesis by (simp add: e n Itoa_defs st_empty_def restful_defs)
qed

subsection \<open>Two services with the same path\<close>

text \<open>
  C2 says that of two services with the same annotated path exactly one route exists
  afterwards, bound to the later service. In the code every service adds its own route
  and nothing removes or replaces a route: after the pass over \<open>foo\<close> and \<open>baz\<close>, which
  both declare \<open>/foo-ext\<close>, the container holds two routes with that path.
\<close>

theorem same_path_counterexample:
  "registered_at ''/foo-ext''
     (RegisterExtension compiles (client_items [svc_foo, svc_baz]) st_empty ''default'') =
   [\<lparr>Method = ''POST'', Path = ''/foo-ext'',
     Function = ExtensionHandler \<lparr>Name = ''foo'', URL = ''/foo-ext'', Port = ''8080''\<rparr>\<rparr>,
    \<lparr>Method = ''POST'', Path = ''/foo-ext'',
     Function = ExtensionHandler \<lparr>Name = ''baz'', URL = ''/foo-ext'', Port = ''9000''\<rparr>\<rparr>]"
  by (simp add: registered_at_def RegisterExtension_def example_defs restful_defs getPort_def
        Itoa_defs urlKey_def)

text \<open>
  C2, as amended: two services of one pass whose endpoint annotations declare the same
  path, each with at least one port, get one \<open>POST\<close> route each for that path when the
  pass completes, in the order in which they are processed: the route of the earlier
  service stays, and the route of the later one comes after it.
\<close>

theorem same_path_both_registered:
  assumes "K8sClient r namespace extensionLabel = Inr (xs @ a # ys @ b # zs)"
    and "distinct (map fst (meta_Annotations (svc_ObjectMeta a)))"
    and "distinct (map fst (meta_Annotations (svc_ObjectMeta b)))"
    and "(urlKey, url) \<in> set (meta_Annotations (svc_ObjectMeta a))"
    and "(urlKey, url) \<in> set (meta_Annotations (svc_ObjectMeta b))"
    and "spec_Ports (svc_Spec a) = pa # pas"
    and "spec_Ports (svc_Spec b) = pb # pbs"
    and "newPathExpression url"
    and "\<forall>s \<in> set xs \<union> set ys \<union> set zs. accepted newPathExpression s"
    and "''/'' \<notin> set (map rootPath (container st))"
  shows "\<exists>st' ws.
     RegisterExtension newPathExpression r st namespace = Inr st' \<and>
     container st' = container st @ [ws] \<and>
     routes ws = extension_routes ''/'' xs @
       [\<lparr>Method = ''POST'', Path = concatPath ''/'' url,
         Function = ExtensionHandler
           \<lparr>Name = meta_Name (svc_ObjectMeta a), URL = url,
            Port = Itoa (sint (port_Port pa))\<rparr>\<rparr>] @
       extension_routes ''/'' ys @
       [\<lparr>Method = ''POST'', Path = concatPath ''/'' url,
         Function = ExtensionHandler
           \<lparr>Name = meta_Name (svc_ObjectMeta b), URL = url,
            Port = Itoa (sint (port_Port pb))\<rparr>\<rparr>] @
       extension_routes ''/'' zs"
proof -
  note ra = service_routes_endpoint [OF assms(2,4,6)]
  note rb = service_routes_endpoint [OF assms(3,5,7)]
  from ra(4) [of newPathExpression] rb(4) [of newPathExpression] assms(8,9)
  have "\<forall>s \<in> set (xs @ a # ys @ b # zs). accepted newPathExpression s" by auto
  note reg = RegisterExtension_accepted [OF assms(1) this assms(10)]
  have "extension_routes ''/'' (xs @ a # ys @ b # zs) =
      extension_routes ''/'' xs @ [ext_route ''/'' a url (Itoa (sint (port_Port pa)))] @
      extension_routes ''/'' ys @ [ext_route ''/'' b url (Itoa (sint (port_Port pb)))] @
      extension_routes ''/'' zs"
    using ra(1) rb(1) by (simp add: extension_routes_def)
  then show ?thesis
    unfolding reg
    by (simp add: extension_ws_def ext_route_def)
qed

theorem same_path_both_registered_witness:
  "K8sClient (client_items [svc_foo, svc_bar, svc_baz]) ''default'' extensionLabel
     = Inr ([] @ svc_foo # [svc_bar] @ svc_baz # []) \<and>
   distinct (map fst (meta_Annotations (svc_ObjectMeta svc_foo))) \<and>
   distinct (map fst (meta_Annotations (svc_ObjectMeta svc_baz))) \<and>
   (urlKey, ''/foo-ext'') \<in> set (meta_Annotations (svc_ObjectMeta svc_foo)) \<and>
   (urlKey, ''/foo-ext'') \<in> set (meta_Annotations (svc_ObjectMeta svc_baz)) \<and>
   spec_Ports (svc_Spec svc_foo) = \<lparr>port_Port = 8080\<rparr> # [\<lparr>port_Port = 9090\<rparr>] \<and>
   spec_Ports (svc_Spec svc_baz) = \<lparr>port_Port = 9000\<rparr> # [] \<and>
   compiles ''/foo-ext'' \<and>
   accepted compiles svc_bar \<and>
   ''/'' \<notin> set (map rootPath (container st_empty)) \<and>
   (\<exists>st' ws.
      RegisterExtension compiles (client_items [svc_foo, svc_bar, svc_baz]) st_empty ''default''
        = Inr st' \<and>
      container st' = container st_empty @ [ws] \<and>
      routes ws =
        [\<lparr>Method = ''POST'', Path = ''/foo-ext'',
          Function = ExtensionHandler \<lparr>Name = ''foo'', URL = ''/foo-ext'', Port = ''8080''\<rparr>\<rparr>,
         \<lparr>Method = ''POST'', Path = ''/foo-ext'',
          Function = ExtensionHandler \<lparr>Name = ''baz'', URL = ''/foo-ext'', Port = ''9000''\<rparr>\<rparr>])"
proof -
  have h1: "K8sClient (client_items [svc_foo, svc_bar, svc_baz]) ''default'' extensionLabel
     = Inr ([] @ svc_foo # [svc_bar] @ svc_baz # [])"
    by (simp add: client_items_def)
  have h2: "distinct (map fst (meta_Annotations (svc_ObjectMeta svc_foo)))"
    by (simp add: svc_foo_def mk_Service_def urlKey_def)
  have h3: "distinct (map fst (meta_Annotations (svc_ObjectMeta svc_baz)))"
    by (simp add: svc_baz_def mk_Service_def)
  have h4: "(urlKey, ''/foo-ext'') \<in> set (meta_Annotations (svc_ObjectMeta svc_foo))"
    by (simp add: svc_foo_def mk_Service_def)
  have h5: "(urlKey, ''/foo-ext'') \<in> set (meta_Annotations (svc_ObjectMeta svc_baz))"
    by (simp add: svc_baz_def mk_Service_def)
  have h6: "spec_Ports (svc_Spec svc_foo) = \<lparr>port_Port = 8080\<rparr> # [\<lparr>port_Port = 9090\<rparr>]"
    by (simp add: svc_foo_def mk_Service_def)
  have h7: "spec_Ports (svc_Spec svc_baz) = \<lparr>port_Port = 9000\<rparr> # []"
    by (simp add: svc_baz_def mk_Service_def)
  have h8: "compiles ''/foo-ext''"
    by (simp add: compiles_def)
  have b: "accepted compiles svc_bar"
    by (simp add: accepted_def malformed_def endpoints_def svc_bar_def mk_Service_def urlKey_def)
  then have h9: "\<forall>s \<in> set [] \<union> set [svc_bar] \<union> set []. accepted compiles s" by simp
  have h10: "''/'' \<notin> set (map rootPath (container st_empty))"
    by (simp add: st_empty_def)
  have e: "extension_routes ''/'' [svc_bar] = []" "extension_routes ''/'' [] = []"
    by (simp_all add: closed_defs svc_bar_def mk_Service_def urlKey_def)
  have n: "meta_Name (svc_ObjectMeta svc_foo) = ''foo''" "meta_Name (svc_ObjectMeta svc_baz) = ''baz''"
    by (simp_all add: svc_foo_def svc_baz_def mk_Service_def)
  from same_path_both_registered [OF h1 h2 h3 h4 h5 h6 h7 h8 h9 h10]
    h1 h2 h3 h4 h5 h6 h7 h8 b h10
  show ?thesis by (simp add: e n Itoa_defs restful_defs)
qed


subsection \<open>The port of an extension\<close>

text \<open>
  C8 says that the port of every extension built in a pass is a valid positive integer.
  The code renders whatever the first declared port holds: a service that declares port
  0 yields an extension with port \<open>0\<close>.
\<close>

theorem extension_port_counterexample:
  "RegisterExtension compiles (client_items [svc_zero]) st_empty ''default'' =
     Inr \<lparr>container =
            [\<lparr>rootPath = ''/'', consumes = [''application/json''], produces = [''application/json''],
              routes = [\<lparr>Method = ''POST'', Path = ''/zero'',
                         Function = ExtensionHandler
                           \<lparr>Name = ''zero'', URL = ''/zero'', Port = ''0''\<rparr>\<rparr>]\<rparr>],
          log = [(INFO, ''Adding API for extensions''), (DEBUG, ''extension URL: /zero'')]\<rparr> \<and>
   \<not> positive_integer ''0''"
  by (simp add: RegisterExtension_def example_defs restful_defs getPort_def Itoa_defs
        urlKey_def positive_integer_def digit_value_def)

text \<open>
  C8, as amended: every route of the web service that a pass adds is the \<open>POST\<close> route of
  an extension built from a service of the query, with the name of the service, the
  value of its endpoint annotation, and as port the decimal rendering of the first
  element of its port list; that port is a positive integer exactly when the declared
  port is positive.
\<close>

theorem extension_port_first_declared:
  assumes "K8sClient r namespace extensionLabel = Inr svcs"
    and "RegisterExtension newPathExpression r st namespace = Inr st'"
    and "rt \<in> set (routes (last (container st')))"
  shows "\<exists>svc \<in> set svcs. \<exists>p ps url ext.
           spec_Ports (svc_Spec svc) = p # ps \<and>
           (urlKey, url) \<in> set (meta_Annotations (svc_ObjectMeta svc)) \<and>
           Method rt = ''POST'' \<and> Path rt = concatPath ''/'' url \<and>
           Function rt = ExtensionHandler ext \<and>
           Name ext = meta_Name (svc_ObjectMeta svc) \<and> URL ext = url \<and>
           Port ext = Itoa (sint (port_Port p)) \<and>
           (positive_integer (Port ext) \<longleftrightarrow> 0 < sint (port_Port p))"
proof -
  from RegisterExtension_returns [OF assms(1,2)]
  have "st' = st\<lparr>container := container st @ [extension_ws svcs],
      log := log st @ (INFO, ''Adding API for extensions'') # extension_log svcs\<rparr>"
    by blast
  with assms(3) have "rt \<in> set (extension_routes ''/'' svcs)"
    by (simp add: extension_ws_def)
  then obtain svc where svc: "svc \<in> set svcs" "rt \<in> set (service_routes ''/'' svc)"
    by (auto simp: extension_routes_def)
  from svc(2) obtain p ps where ports: "spec_Ports (svc_Spec svc) = p # ps"
    by (cases "spec_Ports (svc_Spec svc)") (auto simp: service_routes_def)
  with svc(2) obtain url where url: "url \<in> set (endpoints svc)"
    "rt = ext_route ''/'' svc url (Itoa (sint (port_Port p)))"
    by (auto simp: service_routes_def)
  from url(1) have "(urlKey, url) \<in> set (meta_Annotations (svc_ObjectMeta svc))"
    by (auto simp: endpoints_def)
  with ports url(2) have "\<exists>p ps url ext.
           spec_Ports (svc_Spec svc) = p # ps \<and>
           (urlKey, url) \<in> set (meta_Annotations (svc_ObjectMeta svc)) \<and>
           Method rt = ''POST'' \<and> Path rt = concatPath ''/'' url \<and>
           Function rt = ExtensionHandler ext \<and>
           Name ext = meta_Name (svc_ObjectMeta svc) \<and> URL ext = url \<and>
           Port ext = Itoa (sint (port_Port p)) \<and>
           (positive_integer (Port ext) \<longleftrightarrow> 0 < sint (port_Port p))"
    by (simp add: ext_route_def positive_integer_Itoa)
  with svc(1) show ?thesis by blast
qed

theorem extension_port_first_declared_witness:
  "K8sClient (client_items [svc_foo]) ''default'' extensionLabel = Inr [svc_foo] \<and>
   RegisterExtension compiles (client_items [svc_foo]) st_empty ''default'' =
     Inr \<lparr>container =
            [\<lparr>rootPath = ''/'', consumes = [''application/json''], produces = [''application/json''],
              routes = [\<lparr>Method = ''POST'', Path = ''/foo-ext'',
                         Function = ExtensionHandler
                           \<lparr>Name = ''foo'', URL = ''/foo-ext'', Port = ''8080''\<rparr>\<rparr>]\<rparr>],
          log = [(INFO, ''Adding API for extensions''), (DEBUG, ''extension URL: /foo-ext'')]\<rparr> \<and>
   (\<exists>p ps url ext.
       spec_Ports (svc_Spec svc_foo) = p # ps \<and>
       (urlKey, url) \<in> set (meta_Annotations (svc_ObjectMeta svc_foo)) \<and>
       ExtensionHandler \<lparr>Name = ''foo'', URL = ''/foo-ext'', Port = ''8080''\<rparr> = ExtensionHandler ext \<and>
       Port ext = Itoa (sint (port_Port p)) \<and>
       (positive_integer (Port ext) \<longleftrightarrow> 0 < sint (port_Port p)))"
proof -
  have h1: "K8sClient (client_items [svc_foo]) ''default'' extensionLabel = Inr [svc_foo]"
    by (simp add: client_items_def)
  have h2: "RegisterExtension compiles (client_items [svc_foo]) st_empty ''default'' =
     Inr \<lparr>container =
            [\<lparr>rootPath = ''/'', consumes = [''application/json''], produces = [''application/json''],
              routes = [\<lparr>Method = ''POST'', Path = ''/foo-ext'',
                         Function = ExtensionHandler
                           \<lparr>Name = ''foo'', URL = ''/foo-ext'', Port = ''8080''\<rparr>\<rparr>]\<rparr>],
          log = [(INFO, ''Adding API for extensions''), (DEBUG, ''extension URL: /foo-ext'')]\<rparr>"
    by (simp add: RegisterExtension_def example_defs restful_defs getPort_def Itoa_defs urlKey_def)
  have h3: "\<lparr>Method = ''POST'', Path = ''/foo-ext'',
             Function = ExtensionHandler \<lparr>Name = ''foo'', URL = ''/foo-ext'', Port = ''8080''\<rparr>\<rparr>
            \<in> set (routes (last (container
                 \<lparr>container =
            [\<lparr>rootPath = ''/'', consumes = [''application/json''], produces = [''application/json''],
              routes = [\<lparr>Method = ''POST'', Path = ''/foo-ext'',
                         Function = ExtensionHandler
                           \<lparr>Name = ''foo'', URL = ''/foo-ext'', Port = ''8080''\<rparr>\<rparr>]\<rparr>],
          log = [(INFO, ''Adding API for extensions''), (DEBUG, ''extension URL: /foo-ext'')]\<rparr>)))"
    by simp
  from extension_port_first_declared [OF h1 h2 h3] h1 h2
  show ?thesis by auto
qed

subsection \<open>Forwarding\<close>

text \<open>
  C9: \<open>HandleExtension\<close> discards the error of \<open>url.Parse\<close>: it ends in the nil
  dereference exactly when the concatenation \<open>http://<Name>:<Port>/\<close> does not parse,
  whatever the error is, and it has no other panic. The nil target is unreachable only
  if the concatenation parses.
\<close>

theorem HandleExtension_nil_target:
  "(HandleExtension url_Parse ServeHTTP ext request response = Inl NilPointerDereference) =
     (\<exists>e. url_Parse (''http://'' @ Name ext @ '':'' @ Port ext @ ''/'') = Inl e) \<and>
   (\<forall>p. HandleExtension url_Parse ServeHTTP ext request response = Inl p \<longrightarrow>
        p = NilPointerDereference)"
  by (auto simp: HandleExtension_def NewSingleHostReverseProxy_def split: sum.splits)

theorem HandleExtension_nil_target_witness:
  "HandleExtension example_Parse example_ServeHTTP
      \<lparr>Name = ''foo'', URL = ''/foo-ext'', Port = ''-1''\<rparr> \<lparr>Request = ''POST /foo-ext''\<rparr> [] =
     Inl NilPointerDereference \<and>
   (\<exists>e. example_Parse (''http://'' @ Name \<lparr>Name = ''foo'', URL = ''/foo-ext'', Port = ''-1''\<rparr> @ '':'' @
      Port \<lparr>Name = ''foo'', URL = ''/foo-ext'', Port = ''-1''\<rparr> @ ''/'') = Inl e)"
  using HandleExtension_nil_target [of example_Parse example_ServeHTTP
      "\<lparr>Name = ''foo'', URL = ''/foo-ext'', Port = ''-1''\<rparr>" "\<lparr>Request = ''POST /foo-ext''\<rparr>" "[]"]
  by (simp add: example_Parse_def)

end
